theory Spec2Isabelle
  imports Complex_Main "HOL-Library.AList" "HOL-Library.Sublist"
begin

section \<open>Creator discovery pipeline of main.py\<close>

text \<open>
  The program asks a text-generation service for keywords, searches recent posts for each
  keyword, collects the authors in a dict keyed by author id, counts each author's recent
  posts and keeps the authors that pass two thresholds. The result is written to a JSON file.

  Everything outside main.py is a parameter of the model, collected in the record
  \<open>env\<close>: the two remote clients, \<open>json.loads\<close> and the orchestration library.
  Each is a function from the request to either a raised exception (\<open>Inl\<close>) or a
  returned value (\<open>Inr\<close>). Console output (\<open>print\<close>) is not part of the model,
  and opening a file for writing is taken to succeed.
\<close>

subsection \<open>Exceptions and JSON values\<close>

text \<open>
  The exceptions are all subclasses of Python's \<open>Exception\<close>, so that both
  \<open>except Exception\<close> and a bare \<open>except\<close> catch each of them.
\<close>

datatype exn =
    APIError
  | JSONDecodeError
  | IndexError
  | TypeError
  | AttributeError
  | CrewError

text \<open>What \<open>json.loads\<close> returns: Python's image of a JSON document.\<close>

datatype json =
    JNull
  | JBool bool
  | JInt int
  | JFloat rat
  | JStr string
  | JArr "json list"
  | JObj "(string \<times> json) list"

text \<open>
  A string of the model is the UTF-8 encoding of a Python string, and Python iterates a
  string by code points. In UTF-8 a code point is one byte that is not a continuation
  byte (\<open>0x80\<close> to \<open>0xBF\<close>), followed by its continuation bytes. \<open>code_points\<close>
  cuts the bytes into code points, from the right: a group that begins with a
  continuation byte still lacks the byte before it.
\<close>

definition continuation_byte :: "char \<Rightarrow> bool" where
  "continuation_byte c \<longleftrightarrow> 128 \<le> (of_char c :: nat) \<and> (of_char c :: nat) < 192"

fun code_points :: "string \<Rightarrow> string list" where
  "code_points [] = []"
| "code_points (c # cs) =
     (case code_points cs of
        [] \<Rightarrow> [[c]]
      | [] # gs \<Rightarrow> [c] # gs
      | (b # bs) # gs \<Rightarrow>
          (if continuation_byte b then (c # b # bs) # gs else [c] # (b # bs) # gs))"

text \<open>
  A \<open>for\<close> loop over a value: a list gives its elements, a dict its keys (the
  association list of \<open>JObj\<close> holds the items in the dict's order, one per key), a
  string its code points as one-character strings. Any other JSON value is not iterable
  and the loop raises \<open>TypeError\<close>.
\<close>

fun py_iter :: "json \<Rightarrow> exn + json list" where
  "py_iter (JArr xs) = Inr xs"
| "py_iter (JObj kvs) = Inr (map (\<lambda>kv. JStr (fst kv)) kvs)"
| "py_iter (JStr s) = Inr (map JStr (code_points s))"
| "py_iter JNull = Inl TypeError"
| "py_iter (JBool b) = Inl TypeError"
| "py_iter (JInt i) = Inl TypeError"
| "py_iter (JFloat q) = Inl TypeError"

subsection \<open>Responses of the remote services\<close>

text \<open>
  The chat completion response, as far as main.py reads it: the list
  \<open>resp.choices\<close>, each choice reduced to \<open>choice.message.content\<close>, which is a
  string or \<open>None\<close>.
\<close>

record oa_response =
  choices :: "string option list"

text \<open>
  A user object of a search response. \<open>user_id\<close> is \<open>str(u.id)\<close>;
  \<open>public_metrics\<close> is a dict of counters, or \<open>None\<close> when the service left it out.
\<close>

record tw_user =
  user_id :: string
  username :: string
  public_metrics :: "(string \<rightharpoonup> int) option"

text \<open>
  \<open>resp.includes\<close> is a dict from expansion names to object lists; only the entry
  \<open>users\<close> is read. The empty association list stands for an empty (or absent) dict,
  which Python takes as false.
\<close>

record search_response =
  resp_includes :: "(string \<times> tw_user list) list"

text \<open>\<open>resp.data\<close> of a timeline response is a list of posts or \<open>None\<close>.\<close>

type_synonym tweet = string

record timeline_response =
  tl_data :: "tweet list option"

subsection \<open>Candidates, result entries and the persistence sink\<close>

record author_info =
  info_username :: string
  info_followers :: int

text \<open>
  The dict \<open>authors\<close>. A Python dict iterates in insertion order, and assigning to a
  key that is present keeps its position: this is \<open>AList.update\<close> on an association
  list.
\<close>

type_synonym authors = "(string \<times> author_info) list"

record result_entry =
  profile_url :: string
  entry_username :: string
  followers :: int
  tweets_last_2_weeks :: nat
  avg_posts_per_week :: rat

text \<open>
  What \<open>run_crewai\<close> writes as \<open>results\<close>: the list built by the pipeline, or a
  value of the orchestration library (of type \<open>'o\<close>).
\<close>

datatype 'o result_data =
    Entries "result_entry list"
  | Foreign 'o

text \<open>
  A file written by \<open>json.dump\<close>: the document with its topic and results, or what is
  left when serialisation raised after the file was opened.
\<close>

datatype 'o file_content =
    Doc string "'o result_data"
  | Partial

type_synonym 'o fs = "string \<rightharpoonup> 'o file_content"

text \<open>
  The object returned by \<open>crew.kickoff()\<close>, as far as \<open>run_crewai\<close> probes it:
  the attribute \<open>raw\<close> if present, the outcome of calling \<open>to_dict()\<close> if that
  method is present, the attribute \<open>json\<close> if present, and the object itself.
\<close>

record 'o crew_result =
  cr_raw :: "'o option"
  cr_to_dict :: "(exn + 'o) option"
  cr_json :: "'o option"
  cr_self :: 'o

subsection \<open>The environment\<close>

text \<open>
  An environment fixes the behaviour of the outside world: the same request has the same
  outcome whenever it is made.
  \<^item> \<open>chat_create topic n\<close>: \<open>client_oa.chat.completions.create\<close> with the two
    messages built from \<open>n\<close> and \<open>topic\<close>.
  \<^item> \<open>json_loads\<close>: the library function \<open>json.loads\<close>.
  \<^item> \<open>search_recent_tweets kw max_results days\<close>: the search call. Its query is the
    keyword \<open>kw\<close>, formatted as text, followed by the fixed filters for retweets and
    language; formatting a JSON value does not raise. Its window starts \<open>days\<close> days
    before the call.
  \<^item> \<open>get_users_tweets uid days max_results\<close>: the timeline call; \<open>None\<close> is a
    response that Python takes as false.
  \<^item> \<open>crewai_available\<close>: whether the import of the orchestration library succeeded.
  \<^item> \<open>agent_new\<close>, \<open>task_new\<close>, \<open>crew_new\<close>: the three constructors, which
    return normally (\<open>None\<close>) or raise.
  \<^item> \<open>kickoff topic func\<close>: \<open>crew.kickoff()\<close> for the task that carries
    \<open>func\<close>.
  \<^item> \<open>serializable\<close>, \<open>has_len\<close>: whether \<open>json.dump\<close> and \<open>len\<close>
    accept a value of the orchestration library.
\<close>

record 'o env =
  chat_create :: "string \<Rightarrow> nat \<Rightarrow> exn + oa_response"
  json_loads :: "string \<Rightarrow> exn + json"
  search_recent_tweets :: "json \<Rightarrow> nat \<Rightarrow> nat \<Rightarrow> exn + search_response"
  get_users_tweets :: "string \<Rightarrow> nat \<Rightarrow> nat \<Rightarrow> exn + timeline_response option"
  crewai_available :: bool
  agent_new :: "exn option"
  task_new :: "string \<Rightarrow> exn option"
  crew_new :: "exn option"
  kickoff :: "string \<Rightarrow> (unit \<Rightarrow> exn + result_entry list) \<Rightarrow> exn + 'o crew_result"
  serializable :: "'o \<Rightarrow> bool"
  has_len :: "'o \<Rightarrow> bool"

subsection \<open>Constants\<close>

definition MIN_FOLLOWERS :: int where
  "MIN_FOLLOWERS = 5000"

definition MIN_TWEETS_2W :: nat where
  "MIN_TWEETS_2W = 6"

definition fallback_keywords :: json where
  "fallback_keywords = JArr [JStr ''US stock market'', JStr ''Wall Street'', JStr ''S&P 500'']"

subsection \<open>generate_keywords\<close>

text \<open>
  The body of the \<open>try\<close>: \<open>json.loads(resp.choices[0].message.content)\<close>.
  Indexing an empty list raises \<open>IndexError\<close>; \<open>json.loads(None)\<close> raises
  \<open>TypeError\<close>.
\<close>

definition parse_first_choice :: "'o env \<Rightarrow> oa_response \<Rightarrow> exn + json" where
  "parse_first_choice w resp =
     (case choices resp of
        [] \<Rightarrow> Inl IndexError
      | c # _ \<Rightarrow> (case c of None \<Rightarrow> Inl TypeError | Some s \<Rightarrow> json_loads w s))"

text \<open>
  The request is made before the \<open>try\<close> is entered, so an exception of the request
  leaves the function; the bare \<open>except\<close> covers the parsing only.
\<close>

definition generate_keywords :: "'o env \<Rightarrow> string \<Rightarrow> nat \<Rightarrow> exn + json" where
  "generate_keywords w topic n =
     (case chat_create w topic n of
        Inl e \<Rightarrow> Inl e
      | Inr resp \<Rightarrow>
          (case parse_first_choice w resp of
             Inl _ \<Rightarrow> Inr fallback_keywords
           | Inr v \<Rightarrow> Inr v))"

subsection \<open>search_authors\<close>

text \<open>
  The inner loop over \<open>resp.includes["users"]\<close>. The dict display on the right of the
  assignment is evaluated first; \<open>u.public_metrics.get\<close> on \<open>None\<close> raises
  \<open>AttributeError\<close>, and the users stored before stay in \<open>authors\<close>. The result is
  the dict and the exception that ended the loop, if any.
\<close>

fun add_users :: "tw_user list \<Rightarrow> authors \<Rightarrow> authors \<times> exn option" where
  "add_users [] authors = (authors, None)"
| "add_users (u # us) authors =
     (case public_metrics u of
        None \<Rightarrow> (authors, Some AttributeError)
      | Some pm \<Rightarrow>
          add_users us
            (AList.update (user_id u)
               \<lparr>info_username = username u,
                info_followers = (case pm ''followers_count'' of None \<Rightarrow> 0 | Some v \<Rightarrow> v)\<rparr>
               authors))"

text \<open>
  One round of the loop over the keywords: the \<open>try\<close> with the search call and the
  inner loop, and the handler, which only prints a warning.
\<close>

definition search_keyword :: "'o env \<Rightarrow> nat \<Rightarrow> nat \<Rightarrow> json \<Rightarrow> authors \<Rightarrow> authors" where
  "search_keyword w days per_kw kw authors =
     (case search_recent_tweets w kw (min per_kw 100) days of
        Inl e \<Rightarrow> authors
      | Inr resp \<Rightarrow>
          (if resp_includes resp \<noteq> [] then
             (case map_of (resp_includes resp) ''users'' of
                None \<Rightarrow> authors
              | Some us \<Rightarrow> fst (add_users us authors))
           else authors))"

fun search_loop :: "'o env \<Rightarrow> nat \<Rightarrow> nat \<Rightarrow> json list \<Rightarrow> authors \<Rightarrow> authors" where
  "search_loop w days per_kw [] authors = authors"
| "search_loop w days per_kw (kw # kws) authors =
     search_loop w days per_kw kws (search_keyword w days per_kw kw authors)"

text \<open>
  \<open>keywords\<close> is whatever \<open>generate_keywords\<close> returned; the \<open>for\<close> statement is
  outside the \<open>try\<close>, so iterating a value that is not iterable raises.
\<close>

definition search_authors :: "'o env \<Rightarrow> json \<Rightarrow> nat \<Rightarrow> nat \<Rightarrow> exn + authors" where
  "search_authors w keywords days per_kw =
     (case py_iter keywords of
        Inl e \<Rightarrow> Inl e
      | Inr kws \<Rightarrow> Inr (search_loop w days per_kw kws []))"

subsection \<open>count_tweets\<close>

text \<open>
  \<open>len(resp.data) if resp and resp.data else 0\<close> inside a \<open>try\<close> whose bare
  \<open>except\<close> returns 0. An empty list is false in Python.
\<close>

definition count_tweets :: "'o env \<Rightarrow> string \<Rightarrow> nat \<Rightarrow> exn + nat" where
  "count_tweets w uid days =
     (case get_users_tweets w uid days 100 of
        Inl e \<Rightarrow> Inr 0
      | Inr None \<Rightarrow> Inr 0
      | Inr (Some resp) \<Rightarrow>
          (case tl_data resp of
             None \<Rightarrow> Inr 0
           | Some ts \<Rightarrow> (if ts \<noteq> [] then Inr (length ts) else Inr 0)))"

subsection \<open>run_pipeline\<close>

text \<open>
  \<open>round(x, 2)\<close>: the multiple of 1/100 nearest to \<open>x\<close>, a tie going to the even
  one. The model works on rationals. Python divides and rounds in binary floating point;
  for \<open>x = t / 2\<close> with \<open>t\<close> the length of a list both the quotient and its rounding
  are exact there, so the rational agrees with the float.
\<close>

definition py_round2 :: "rat \<Rightarrow> rat" where
  "py_round2 x =
     (let y = x * 100;
          f = \<lfloor>y\<rfloor>;
          d = y - of_int f
      in of_int (if d < 1 / 2 then f
                 else if 1 / 2 < d then f + 1
                 else if even f then f else f + 1) / 100)"

text \<open>The loop over \<open>authors.items()\<close> with the list \<open>results\<close> it appends to.\<close>

fun pipeline_loop :: "'o env \<Rightarrow> authors \<Rightarrow> result_entry list \<Rightarrow> exn + result_entry list" where
  "pipeline_loop w [] results = Inr results"
| "pipeline_loop w ((uid, info) # rest) results =
     (case count_tweets w uid 7 of
        Inl e \<Rightarrow> Inl e
      | Inr t \<Rightarrow>
          (if info_followers info \<ge> MIN_FOLLOWERS \<and> t \<ge> MIN_TWEETS_2W then
             pipeline_loop w rest
               (results @
                [\<lparr>profile_url = ''https://x.com/'' @ info_username info,
                  entry_username = info_username info,
                  followers = info_followers info,
                  tweets_last_2_weeks = t,
                  avg_posts_per_week = py_round2 (of_nat t / 2)\<rparr>])
           else pipeline_loop w rest results))"

text \<open>
  The function returns the list and leaves the file \<open>results.json\<close> behind. An
  exception leaves the files as they were: nothing is written before the loop ends.
\<close>

definition run_pipeline ::
  "'o env \<Rightarrow> string \<Rightarrow> 'o fs \<Rightarrow> (exn + result_entry list) \<times> 'o fs" where
  "run_pipeline w topic files =
     (case generate_keywords w topic 3 of
        Inl e \<Rightarrow> (Inl e, files)
      | Inr kws \<Rightarrow>
          (case search_authors w kws 7 10 of
             Inl e \<Rightarrow> (Inl e, files)
           | Inr authors \<Rightarrow>
               (case pipeline_loop w authors [] of
                  Inl e \<Rightarrow> (Inl e, files)
                | Inr results \<Rightarrow>
                    (Inr results, files(''results.json'' \<mapsto> Doc topic (Entries results))))))"

subsection \<open>run_crewai\<close>

text \<open>The loop inside the nested function \<open>search_and_filter\<close>.\<close>

fun filter_loop :: "'o env \<Rightarrow> authors \<Rightarrow> result_entry list \<Rightarrow> exn + result_entry list" where
  "filter_loop w [] results = Inr results"
| "filter_loop w ((uid, info) # rest) results =
     (case count_tweets w uid 7 of
        Inl e \<Rightarrow> Inl e
      | Inr t \<Rightarrow>
          (if info_followers info \<ge> MIN_FOLLOWERS \<and> t \<ge> MIN_TWEETS_2W then
             filter_loop w rest
               (results @
                [\<lparr>profile_url = ''https://x.com/'' @ info_username info,
                  entry_username = info_username info,
                  followers = info_followers info,
                  tweets_last_2_weeks = t,
                  avg_posts_per_week = py_round2 (of_nat t / 2)\<rparr>])
           else filter_loop w rest results))"

text \<open>
  \<open>search_and_filter(ctx)\<close> closes over \<open>topic\<close>, ignores \<open>ctx\<close> and writes no
  file.
\<close>

definition search_and_filter :: "'o env \<Rightarrow> string \<Rightarrow> 'c \<Rightarrow> exn + result_entry list" where
  "search_and_filter w topic ctx =
     (case generate_keywords w topic 3 of
        Inl e \<Rightarrow> Inl e
      | Inr kws \<Rightarrow>
          (case search_authors w kws 7 10 of
             Inl e \<Rightarrow> Inl e
           | Inr authors \<Rightarrow> filter_loop w authors []))"

text \<open>
  The body of the \<open>try\<close> in \<open>run_crewai\<close>: the kickoff and the choice of
  \<open>result_data\<close> by the first attribute that is present.
\<close>

definition crew_attempt :: "'o env \<Rightarrow> string \<Rightarrow> exn + 'o" where
  "crew_attempt w topic =
     (case kickoff w topic (search_and_filter w topic) of
        Inl e \<Rightarrow> Inl e
      | Inr r \<Rightarrow>
          (case cr_raw r of
             Some v \<Rightarrow> Inr v
           | None \<Rightarrow>
               (case cr_to_dict r of
                  Some called \<Rightarrow> called
                | None \<Rightarrow>
                    (case cr_json r of
                       Some v \<Rightarrow> Inr v
                     | None \<Rightarrow> Inr (cr_self r)))))"

text \<open>
  The end of \<open>run_crewai\<close>: \<open>json.dump\<close> into \<open>results_crewai.json\<close>, then
  \<open>len(result_data)\<close> for the message. A list of entries passes both. A value that
  \<open>json.dump\<close> refuses leaves a partial file and raises \<open>TypeError\<close>, and so does a
  value without a length, after the file is complete.
\<close>

definition write_crewai ::
  "'o env \<Rightarrow> string \<Rightarrow> 'o result_data \<Rightarrow> 'o fs \<Rightarrow> (exn + 'o result_data) \<times> 'o fs" where
  "write_crewai w topic result_data files =
     (case result_data of
        Entries rs \<Rightarrow>
          (Inr result_data, files(''results_crewai.json'' \<mapsto> Doc topic result_data))
      | Foreign v \<Rightarrow>
          (if \<not> serializable w v then
             (Inl TypeError, files(''results_crewai.json'' \<mapsto> Partial))
           else if \<not> has_len w v then
             (Inl TypeError, files(''results_crewai.json'' \<mapsto> Doc topic result_data))
           else
             (Inr result_data, files(''results_crewai.json'' \<mapsto> Doc topic result_data))))"

text \<open>
  \<open>run_crewai\<close>. Without the library it is \<open>run_pipeline\<close> and returns at once. With
  it, the three constructors run outside the \<open>try\<close>; the handler of the \<open>try\<close> calls
  \<open>run_pipeline\<close>, whose own exception would leave \<open>run_crewai\<close>.
\<close>

definition run_crewai ::
  "'o env \<Rightarrow> string \<Rightarrow> 'o fs \<Rightarrow> (exn + 'o result_data) \<times> 'o fs" where
  "run_crewai w topic files =
     (if \<not> crewai_available w then
        (case run_pipeline w topic files of
           (Inl e, files') \<Rightarrow> (Inl e, files')
         | (Inr rs, files') \<Rightarrow> (Inr (Entries rs), files'))
      else
        (case agent_new w of
           Some e \<Rightarrow> (Inl e, files)
         | None \<Rightarrow>
             (case task_new w topic of
                Some e \<Rightarrow> (Inl e, files)
              | None \<Rightarrow>
                  (case crew_new w of
                     Some e \<Rightarrow> (Inl e, files)
                   | None \<Rightarrow>
                       (case crew_attempt w topic of
                          Inr v \<Rightarrow> write_crewai w topic (Foreign v) files
                        | Inl e \<Rightarrow>
                            (case run_pipeline w topic files of
                               (Inl e', files') \<Rightarrow> (Inl e', files')
                             | (Inr rs, files') \<Rightarrow>
                                 write_crewai w topic (Entries rs) files'))))))"

section \<open>Notions used to state the properties\<close>

text \<open>
  The number that the pipeline measures for a candidate: the value \<open>count_tweets\<close>
  returns for the default window of 7 days.
\<close>

definition posts :: "'o env \<Rightarrow> string \<Rightarrow> nat" where
  "posts w uid = (case count_tweets w uid 7 of Inl e \<Rightarrow> 0 | Inr t \<Rightarrow> t)"

text \<open>
  The result entry of the specification for a candidate with \<open>t\<close> recent posts: the
  profile URL derived from the handle, the handle, the follower count, the post count
  and the post count divided by 2, rounded to 2 decimals.
\<close>

definition entry_of :: "author_info \<Rightarrow> nat \<Rightarrow> result_entry" where
  "entry_of info t =
     \<lparr>profile_url = ''https://x.com/'' @ info_username info,
      entry_username = info_username info,
      followers = info_followers info,
      tweets_last_2_weeks = t,
      avg_posts_per_week = py_round2 (of_nat t / 2)\<rparr>"

text \<open>
  The candidate that a user object stands for: its identifier with its handle and its
  follower count, 0 when the count is missing.
\<close>

definition candidate_of :: "tw_user \<Rightarrow> string \<times> author_info" where
  "candidate_of u =
     (user_id u,
      \<lparr>info_username = username u,
       info_followers =
         (case public_metrics u of
            None \<Rightarrow> 0
          | Some pm \<Rightarrow> (case pm ''followers_count'' of None \<Rightarrow> 0 | Some v \<Rightarrow> v))\<rparr>)"

text \<open>
  The users that the search for a keyword returned (none when the search raised or the
  response had no included users), and the candidates that the round for this keyword
  stores: the users up to the first one without public metrics.
\<close>

definition listed :: "'o env \<Rightarrow> nat \<Rightarrow> nat \<Rightarrow> json \<Rightarrow> tw_user list" where
  "listed w days per_kw kw =
     (case search_recent_tweets w kw (min per_kw 100) days of
        Inl e \<Rightarrow> []
      | Inr resp \<Rightarrow> (case map_of (resp_includes resp) ''users'' of None \<Rightarrow> [] | Some us \<Rightarrow> us))"

definition inserted :: "'o env \<Rightarrow> nat \<Rightarrow> nat \<Rightarrow> json \<Rightarrow> (string \<times> author_info) list" where
  "inserted w days per_kw kw =
     map candidate_of (takeWhile (\<lambda>u. public_metrics u \<noteq> None) (listed w days per_kw kw))"

text \<open>Storing a sequence of candidates, one assignment after the other.\<close>

definition store_all :: "(string \<times> author_info) list \<Rightarrow> authors \<Rightarrow> authors" where
  "store_all ps authors = fold (\<lambda>p. AList.update (fst p) (snd p)) ps authors"

text \<open>The elements of a list in the order of their first occurrence.\<close>

primrec first_seen :: "'a list \<Rightarrow> 'a list" where
  "first_seen [] = []"
| "first_seen (x # xs) = x # removeAll x (first_seen xs)"

section \<open>Example environments\<close>

text \<open>
  A user with a follower count, a search response that includes users, and a timeline
  of \<open>n\<close> posts.
\<close>

definition mk_user :: "string \<Rightarrow> string \<Rightarrow> int \<Rightarrow> tw_user" where
  "mk_user uid name n =
     \<lparr>user_id = uid, username = name, public_metrics = Some [''followers_count'' \<mapsto> n]\<rparr>"

definition found :: "tw_user list \<Rightarrow> exn + search_response" where
  "found us = Inr \<lparr>resp_includes = [(''users'', us)]\<rparr>"

definition timeline :: "nat \<Rightarrow> exn + timeline_response option" where
  "timeline n = Inr (Some \<lparr>tl_data = Some (replicate n ''post'')\<rparr>)"

text \<open>
  \<open>json.loads\<close> on the contents that the example services return: an array of three
  strings, a number, and text that is not JSON.
\<close>

definition example_json_loads :: "string \<Rightarrow> exn + json" where
  \<open>example_json_loads s =
     (if s = ''["stocks", "Fed", "earnings"]'' then
        Inr (JArr [JStr ''stocks'', JStr ''Fed'', JStr ''earnings''])
      else if s = ''42'' then Inr (JInt 42)
      else Inl JSONDecodeError)\<close>

text \<open>Every remote call raises, and the orchestration library is not installed.\<close>

definition env_offline :: "string env" where
  "env_offline =
     \<lparr>chat_create = (\<lambda>topic n. Inl APIError),
      json_loads = example_json_loads,
      search_recent_tweets = (\<lambda>kw max_results days. Inl APIError),
      get_users_tweets = (\<lambda>uid days max_results. Inl APIError),
      crewai_available = False,
      agent_new = None,
      task_new = (\<lambda>topic. None),
      crew_new = None,
      kickoff = (\<lambda>topic func. Inl CrewError),
      serializable = (\<lambda>v. True),
      has_len = (\<lambda>v. True)\<rparr>"

text \<open>
  The end-to-end scenario of the specification: the keywords are stocks, Fed and
  earnings; the search for stocks yields author A (8000 followers), the search for Fed
  yields author B (3000 followers) and A again; every author has 10 recent posts. The
  search for earnings raises.
\<close>

definition env_scenario :: "string env" where
  \<open>env_scenario =
     env_offline
       \<lparr>chat_create := (\<lambda>topic n. Inr \<lparr>choices = [Some ''["stocks", "Fed", "earnings"]'']\<rparr>),
        search_recent_tweets := (\<lambda>kw max_results days.
           if kw = JStr ''stocks'' then found [mk_user ''1'' ''A'' 8000]
           else if kw = JStr ''Fed'' then found [mk_user ''2'' ''B'' 3000, mk_user ''1'' ''A'' 8000]
           else Inl APIError),
        get_users_tweets := (\<lambda>uid days max_results. timeline 10)\<rparr>\<close>

text \<open>The scenario with a text-generation service that raises.\<close>

definition env_no_keywords :: "string env" where
  "env_no_keywords = env_scenario\<lparr>chat_create := (\<lambda>topic n. Inl APIError)\<rparr>"

text \<open>The scenario with a text-generation service that answers with a JSON number.\<close>

definition env_number :: "string env" where
  "env_number = env_scenario\<lparr>chat_create := (\<lambda>topic n. Inr \<lparr>choices = [Some ''42'']\<rparr>)\<rparr>"

text \<open>The scenario with a text-generation service that answers in prose.\<close>

definition env_prose :: "string env" where
  "env_prose =
     env_scenario
       \<lparr>chat_create := (\<lambda>topic n. Inr \<lparr>choices = [Some ''Here are 3 keywords: stocks, Fed, earnings'']\<rparr>)\<rparr>"

text \<open>
  The scenario with a second search response in which the first user has no public
  metrics and author 1 comes after it, with a new handle and follower count.
\<close>

definition env_missing_metrics :: "string env" where
  "env_missing_metrics =
     env_scenario
       \<lparr>search_recent_tweets := (\<lambda>kw max_results days.
           if kw = JStr ''stocks'' then found [mk_user ''1'' ''A'' 8000]
           else if kw = JStr ''Fed'' then
             found [\<lparr>user_id = ''2'', username = ''B'', public_metrics = None\<rparr>,
                    mk_user ''1'' ''A2'' 9000]
           else Inl APIError)\<rparr>"

text \<open>The scenario with 6 recent posts for author 1 and 5 for everybody else.\<close>

definition env_boundary :: "string env" where
  "env_boundary =
     env_scenario
       \<lparr>get_users_tweets := (\<lambda>uid days max_results. if uid = ''1'' then timeline 6 else timeline 5)\<rparr>"

text \<open>The scenario with 7 recent posts for every author.\<close>

definition env_seven :: "string env" where
  "env_seven = env_scenario\<lparr>get_users_tweets := (\<lambda>uid days max_results. timeline 7)\<rparr>"

text \<open>
  The scenario with the orchestration library installed: its kickoff raises, or already
  its first constructor does.
\<close>

definition env_crew_fails :: "string env" where
  "env_crew_fails = env_scenario\<lparr>crewai_available := True\<rparr>"

definition env_agent_fails :: "string env" where
  "env_agent_fails = env_scenario\<lparr>crewai_available := True, agent_new := Some CrewError\<rparr>"

text \<open>
  The scenario with an author 3 whose user object has public metrics without
  \<open>followers_count\<close>, next to author A in the response for stocks.
\<close>

definition env_no_count :: "string env" where
  "env_no_count =
     env_scenario
       \<lparr>search_recent_tweets := (\<lambda>kw max_results days.
           if kw = JStr ''stocks'' then
             found [mk_user ''1'' ''A'' 8000,
                    \<lparr>user_id = ''3'', username = ''C'', public_metrics = Some Map.empty\<rparr>]
           else if kw = JStr ''Fed'' then found [mk_user ''2'' ''B'' 3000, mk_user ''1'' ''A'' 8000]
           else Inl APIError)\<rparr>"

text \<open>
  The same, but the response for Fed brings author 3 again, now with 8000 followers.
\<close>

definition env_count_later :: "string env" where
  "env_count_later =
     env_scenario
       \<lparr>search_recent_tweets := (\<lambda>kw max_results days.
           if kw = JStr ''stocks'' then
             found [\<lparr>user_id = ''3'', username = ''C'', public_metrics = Some Map.empty\<rparr>]
           else if kw = JStr ''Fed'' then found [mk_user ''3'' ''C'' 8000]
           else Inl APIError)\<rparr>"

text \<open>
  The scenario with one search response, in which author 3 without
  \<open>followers_count\<close> comes after a user without public metrics.
\<close>

definition env_no_count_unreached :: "string env" where
  "env_no_count_unreached =
     env_scenario
       \<lparr>search_recent_tweets := (\<lambda>kw max_results days.
           if kw = JStr ''stocks'' then
             found [\<lparr>user_id = ''2'', username = ''B'', public_metrics = None\<rparr>,
                    \<lparr>user_id = ''3'', username = ''C'', public_metrics = Some Map.empty\<rparr>]
           else Inl APIError)\<rparr>"

section \<open>Properties\<close>

subsection \<open>General facts about the functions\<close>

text \<open>\<open>count_tweets\<close> always returns, so the loop of \<open>run_pipeline\<close> does too.\<close>

lemma count_tweets_Inr: "\<exists>t. count_tweets w uid days = Inr t"
  by (simp add: count_tweets_def split: sum.splits option.splits)

lemma count_tweets_posts: "count_tweets w uid 7 = Inr (posts w uid)"
  using count_tweets_Inr [of w uid 7] by (auto simp: posts_def)

lemma pipeline_loop_acc:
  "pipeline_loop w authors results =
     Inr (results @
          map (\<lambda>(uid, info). entry_of info (posts w uid))
            (filter (\<lambda>(uid, info). 5000 \<le> info_followers info \<and> 6 \<le> posts w uid) authors))"
  by (induction w authors results rule: pipeline_loop.induct)
     (simp_all add: count_tweets_posts entry_of_def MIN_FOLLOWERS_def MIN_TWEETS_2W_def)

text \<open>Rounding a half of a natural number to 2 decimals changes nothing.\<close>

lemma py_round2_half: "py_round2 (of_nat t / 2) = of_nat t / 2"
proof -
  have "(of_nat t / 2 :: rat) * 100 = of_int (50 * int t)" by simp
  then show ?thesis
    by (simp add: py_round2_def Let_def del: of_int_mult of_int_numeral)
qed

lemma run_pipeline_results:
  assumes "fst (run_pipeline w topic files) = Inr rs"
  obtains kws authors where
    "generate_keywords w topic 3 = Inr kws"
    "search_authors w kws 7 10 = Inr authors"
    "pipeline_loop w authors [] = Inr rs"
  using assms by (auto simp: run_pipeline_def split: sum.splits)

lemma search_authors_iterable:
  "py_iter kws = Inr ks \<Longrightarrow> \<exists>a. search_authors w kws days per_kw = Inr a"
  by (simp add: search_authors_def)

lemma pipeline_loop_Inr: "\<exists>rs. pipeline_loop w authors results = Inr rs"
  by (simp add: pipeline_loop_acc)

text \<open>
  Once the keywords are there and can be iterated, no failure of the search or of the
  timeline stops the run: \<open>run_pipeline\<close> returns a list and writes it.
\<close>

lemma run_pipeline_completes_after_keywords:
  assumes "generate_keywords w topic 3 = Inr kws" and "py_iter kws = Inr ks"
  shows "\<exists>rs. run_pipeline w topic files =
           (Inr rs, files(''results.json'' \<mapsto> Doc topic (Entries rs)))"
proof -
  from assms(2) obtain a where "search_authors w kws 7 10 = Inr a"
    using search_authors_iterable by blast
  moreover obtain rs where "pipeline_loop w a [] = Inr rs"
    using pipeline_loop_Inr by blast
  ultimately show ?thesis using assms(1) by (simp add: run_pipeline_def)
qed

lemma run_pipeline_files:
  "run_pipeline w topic files = (Inr rs, files') \<Longrightarrow>
     files' = files(''results.json'' \<mapsto> Doc topic (Entries rs))"
  by (auto simp: run_pipeline_def split: sum.splits)

text \<open>The loop of \<open>search_and_filter\<close> computes what the loop of \<open>run_pipeline\<close> computes.\<close>

lemma filter_loop_pipeline_loop:
  "filter_loop w authors results = pipeline_loop w authors results"
  by (induction w authors results rule: pipeline_loop.induct) (auto split: sum.splits)

text \<open>
  The collector as a sequence of assignments: each round stores the candidates
  \<open>inserted\<close>, and the whole loop stores their concatenation. Then the content, the
  keys and their order follow from the same facts about \<open>store_all\<close>.
\<close>

lemma store_all_simps [simp]:
  "store_all [] a = a"
  "store_all (p # ps) a = store_all ps (AList.update (fst p) (snd p) a)"
  "store_all (ps @ qs) a = store_all qs (store_all ps a)"
  by (simp_all add: store_all_def)

lemma add_users_store_all:
  "fst (add_users us a) =
     store_all (map candidate_of (takeWhile (\<lambda>u. public_metrics u \<noteq> None) us)) a"
  by (induction us a rule: add_users.induct)
     (auto simp: candidate_of_def split: option.splits)

lemma search_keyword_store_all:
  "search_keyword w days per_kw kw a = store_all (inserted w days per_kw kw) a"
  by (auto simp: search_keyword_def inserted_def listed_def add_users_store_all
      split: sum.splits option.splits)

lemma search_loop_store_all:
  "search_loop w days per_kw kws a = store_all (concat (map (inserted w days per_kw) kws)) a"
  by (induction kws arbitrary: a) (simp_all add: search_keyword_store_all)

lemma store_all_map_of: "map_of (store_all ps a) = map_of a ++ map_of (rev ps)"
  by (induction ps arbitrary: a) (auto simp: AList.update_conv' map_add_def fun_eq_iff split: option.splits)

lemma store_all_distinct: "distinct (map fst a) \<Longrightarrow> distinct (map fst (store_all ps a))"
  by (induction ps arbitrary: a) (simp_all add: AList.distinct_update)

lemma filter_removeAll_absorb: "\<not> P k \<Longrightarrow> filter P (removeAll k xs) = filter P xs"
  by (induction xs) auto

lemma filter_removeAll_conj: "filter (\<lambda>k. k \<noteq> x \<and> P k) xs = filter P (removeAll x xs)"
  by (induction xs) auto

lemma store_all_keys:
  "map fst (store_all ps a) =
     map fst a @ filter (\<lambda>k. k \<notin> set (map fst a)) (first_seen (map fst ps))"
proof (induction ps arbitrary: a)
  case Nil
  then show ?case by simp
next
  case (Cons p ps)
  show ?case
  proof (cases "fst p \<in> set (map fst a)")
    case True
    then have "map fst (AList.update (fst p) (snd p) a) = map fst a"
      by (simp add: AList.update_keys)
    with True Cons.IH [of "AList.update (fst p) (snd p) a"] show ?thesis
      by (simp add: filter_removeAll_absorb)
  next
    case False
    then have k: "map fst (AList.update (fst p) (snd p) a) = map fst a @ [fst p]"
      by (simp add: AList.update_keys)
    with False k Cons.IH [of "AList.update (fst p) (snd p) a"] show ?thesis
      by (simp add: filter_removeAll_conj)
  qed
qed

lemma first_seen_set: "set (first_seen xs) = set xs"
  by (induction xs) auto

lemma first_seen_distinct: "distinct (first_seen xs)"
  by (induction xs) (auto simp: distinct_removeAll)


lemma search_loop_append:
  "search_loop w days per_kw (ks @ ks') a = search_loop w days per_kw ks' (search_loop w days per_kw ks a)"
  by (induction ks arbitrary: a) simp_all

lemma search_loop_skip_failed:
  "search_loop w days per_kw kws a =
     search_loop w days per_kw
       (filter (\<lambda>kw. \<not> isl (search_recent_tweets w kw (min per_kw 100) days)) kws) a"
  by (induction kws arbitrary: a) (auto simp: search_keyword_def split: sum.splits)

text \<open>
  The last candidate stored for an identifier is the one the dict holds, and a candidate
  that fails the filter can be taken out of the dict without changing what passes.
\<close>

lemma map_of_rev_last:
  "k \<notin> fst ` set post \<Longrightarrow> map_of (rev (pre @ (k, v) # post)) k = Some v"
  by (simp add: map_add_def map_of_eq_None_iff [THEN iffD2] split: option.splits)

lemma inserted_split:
  assumes "listed w days per_kw kw = us1 @ u # us2"
    and "\<forall>v \<in> set us1. public_metrics v \<noteq> None"
    and "public_metrics u = Some pm"
  shows "inserted w days per_kw kw =
           map candidate_of us1 @ candidate_of u #
           map candidate_of (takeWhile (\<lambda>v. public_metrics v \<noteq> None) us2)"
  using assms by (simp add: inserted_def takeWhile_append2)

lemma filter_without_key:
  assumes "distinct (map fst authors)" and "map_of authors k = Some v" and "\<not> Q (k, v)"
  shows "filter Q authors = filter Q (filter (\<lambda>p. fst p \<noteq> k) authors)"
proof -
  have "\<not> Q p" if "p \<in> set authors" "fst p = k" for p
  proof -
    from that assms(1,2) have "snd p = v"
      by (metis map_of_eq_Some_iff option.inject prod.collapse)
    with that(2) assms(3) show ?thesis
      by (metis prod.collapse)
  qed
  then have "Q p \<longleftrightarrow> fst p \<noteq> k \<and> Q p" if "p \<in> set authors" for p
    using that by blast
  then show ?thesis
    by (simp add: filter_filter cong: filter_cong)
qed

text \<open>Iteration over a string takes a code point of several bytes as one character.\<close>

lemma code_points_examples:
  "code_points ''Fed'' = [''F'', ''e'', ''d'']"
  "code_points [CHR 0xC3, CHR 0xA9] = [[CHR 0xC3, CHR 0xA9]]"
  "code_points [CHR ''a'', CHR 0xE2, CHR 0x82, CHR 0xAC, CHR ''b''] =
     [''a'', [CHR 0xE2, CHR 0x82, CHR 0xAC], ''b'']"
  by (simp_all add: continuation_byte_def)

subsection \<open>The example environments evaluated\<close>

lemmas example_defs =
  env_scenario_def env_offline_def found_def mk_user_def timeline_def example_json_loads_def

lemma scenario_keywords:
  "generate_keywords env_scenario topic 3 = Inr (JArr [JStr ''stocks'', JStr ''Fed'', JStr ''earnings''])"
  "generate_keywords env_boundary topic 3 = Inr (JArr [JStr ''stocks'', JStr ''Fed'', JStr ''earnings''])"
  "generate_keywords env_seven topic 3 = Inr (JArr [JStr ''stocks'', JStr ''Fed'', JStr ''earnings''])"
  "generate_keywords env_crew_fails topic 3 = Inr (JArr [JStr ''stocks'', JStr ''Fed'', JStr ''earnings''])"
  by (simp_all add: generate_keywords_def parse_first_choice_def example_defs
        env_boundary_def env_seven_def env_crew_fails_def)

lemma scenario_authors:
  "search_authors env_scenario (JArr [JStr ''stocks'', JStr ''Fed'', JStr ''earnings'']) 7 10 =
     Inr [(''1'', \<lparr>info_username = ''A'', info_followers = 8000\<rparr>),
          (''2'', \<lparr>info_username = ''B'', info_followers = 3000\<rparr>)]"
  "search_authors env_boundary (JArr [JStr ''stocks'', JStr ''Fed'', JStr ''earnings'']) 7 10 =
     Inr [(''1'', \<lparr>info_username = ''A'', info_followers = 8000\<rparr>),
          (''2'', \<lparr>info_username = ''B'', info_followers = 3000\<rparr>)]"
  "search_authors env_seven (JArr [JStr ''stocks'', JStr ''Fed'', JStr ''earnings'']) 7 10 =
     Inr [(''1'', \<lparr>info_username = ''A'', info_followers = 8000\<rparr>),
          (''2'', \<lparr>info_username = ''B'', info_followers = 3000\<rparr>)]"
  "search_authors env_crew_fails (JArr [JStr ''stocks'', JStr ''Fed'', JStr ''earnings'']) 7 10 =
     Inr [(''1'', \<lparr>info_username = ''A'', info_followers = 8000\<rparr>),
          (''2'', \<lparr>info_username = ''B'', info_followers = 3000\<rparr>)]"
  by (simp_all add: search_authors_def search_keyword_def example_defs
        env_boundary_def env_seven_def env_crew_fails_def)

lemma example_posts:
  "posts env_scenario uid = 10"
  "posts env_boundary uid = (if uid = ''1'' then 6 else 5)"
  "posts env_seven uid = 7"
  "posts env_crew_fails uid = 10"
  by (simp_all add: posts_def count_tweets_def example_defs
        env_boundary_def env_seven_def env_crew_fails_def)

lemma seven_run:
  "fst (run_pipeline env_seven ''US financial markets'' Map.empty) =
     Inr [entry_of \<lparr>info_username = ''A'', info_followers = 8000\<rparr> 7]"
  by (simp add: run_pipeline_def scenario_keywords scenario_authors pipeline_loop_acc example_posts)

lemma scenario_run:
  "run_pipeline env_scenario ''US financial markets'' Map.empty =
     (Inr [entry_of \<lparr>info_username = ''A'', info_followers = 8000\<rparr> 10],
      [''results.json'' \<mapsto> Doc ''US financial markets''
         (Entries [entry_of \<lparr>info_username = ''A'', info_followers = 8000\<rparr> 10])])"
  "run_pipeline env_crew_fails ''US financial markets'' Map.empty =
     (Inr [entry_of \<lparr>info_username = ''A'', info_followers = 8000\<rparr> 10],
      [''results.json'' \<mapsto> Doc ''US financial markets''
         (Entries [entry_of \<lparr>info_username = ''A'', info_followers = 8000\<rparr> 10])])"
  by (simp_all add: run_pipeline_def scenario_keywords scenario_authors pipeline_loop_acc
        example_posts)

lemma no_count_evaluated:
  "generate_keywords env_no_count topic 3 = Inr (JArr [JStr ''stocks'', JStr ''Fed'', JStr ''earnings''])"
  "listed env_no_count 7 10 (JStr ''stocks'') =
     [mk_user ''1'' ''A'' 8000, \<lparr>user_id = ''3'', username = ''C'', public_metrics = Some Map.empty\<rparr>]"
  "inserted env_no_count 7 10 (JStr ''Fed'') =
     [(''2'', \<lparr>info_username = ''B'', info_followers = 3000\<rparr>),
      (''1'', \<lparr>info_username = ''A'', info_followers = 8000\<rparr>)]"
  "inserted env_no_count 7 10 (JStr ''earnings'') = []"
  "search_authors env_no_count (JArr [JStr ''stocks'', JStr ''Fed'', JStr ''earnings'']) 7 10 =
     Inr [(''1'', \<lparr>info_username = ''A'', info_followers = 8000\<rparr>),
          (''3'', \<lparr>info_username = ''C'', info_followers = 0\<rparr>),
          (''2'', \<lparr>info_username = ''B'', info_followers = 3000\<rparr>)]"
  "posts env_no_count uid = 10"
  by (simp_all add: generate_keywords_def parse_first_choice_def listed_def inserted_def
        candidate_of_def search_authors_def search_keyword_def posts_def count_tweets_def
        env_no_count_def example_defs)

text \<open>
  The outcome that the specification expects for its scenario: author A alone, with
  8000 followers, 10 posts and an average of 5.
\<close>

lemma scenario_entry:
  "entry_of \<lparr>info_username = ''A'', info_followers = 8000\<rparr> 10 =
     \<lparr>profile_url = ''https://x.com/A'', entry_username = ''A'', followers = 8000,
      tweets_last_2_weeks = 10, avg_posts_per_week = 5\<rparr>"
  using py_round2_half [of 10] by (simp add: entry_of_def)

subsection \<open>generate_keywords\<close>

text \<open>
  C3 as amended. When the text-generation call returns a response,
  \<open>generate_keywords\<close> does not raise. It returns the fallback list when the response
  has no choice, when the content of the first choice is missing, and when
  \<open>json.loads\<close> rejects the content; it returns the parsed value as it is when
  \<open>json.loads\<close> accepts the content, whether the value is an array or not.
\<close>

theorem C3_fallback_on_unparsable_response:
  assumes "chat_create w topic n = Inr resp"
  shows "(\<exists>v. generate_keywords w topic n = Inr v)
         \<and> (choices resp = [] \<longrightarrow> generate_keywords w topic n = Inr fallback_keywords)
         \<and> (\<forall>cs. choices resp = None # cs \<longrightarrow>
               generate_keywords w topic n = Inr fallback_keywords)
         \<and> (\<forall>s cs e. choices resp = Some s # cs \<and> json_loads w s = Inl e \<longrightarrow>
               generate_keywords w topic n = Inr fallback_keywords)
         \<and> (\<forall>s cs v. choices resp = Some s # cs \<and> json_loads w s = Inr v \<longrightarrow>
               generate_keywords w topic n = Inr v)
         \<and> fallback_keywords = JArr [JStr ''US stock market'', JStr ''Wall Street'', JStr ''S&P 500'']"
  using assms
  by (auto simp: generate_keywords_def parse_first_choice_def fallback_keywords_def
        split: sum.splits list.splits option.splits)

theorem C3_fallback_on_unparsable_response_witness:
  "chat_create env_prose ''US financial markets'' 3 =
     Inr \<lparr>choices = [Some ''Here are 3 keywords: stocks, Fed, earnings'']\<rparr>
   \<and> json_loads env_prose ''Here are 3 keywords: stocks, Fed, earnings'' = Inl JSONDecodeError
   \<and> generate_keywords env_prose ''US financial markets'' 3 =
       Inr (JArr [JStr ''US stock market'', JStr ''Wall Street'', JStr ''S&P 500''])
   \<and> generate_keywords (env_scenario\<lparr>chat_create := (\<lambda>topic n. Inr \<lparr>choices = []\<rparr>)\<rparr>)
         ''US financial markets'' 3 =
       Inr (JArr [JStr ''US stock market'', JStr ''Wall Street'', JStr ''S&P 500''])
   \<and> generate_keywords (env_scenario\<lparr>chat_create := (\<lambda>topic n. Inr \<lparr>choices = [None]\<rparr>)\<rparr>)
         ''US financial markets'' 3 =
       Inr (JArr [JStr ''US stock market'', JStr ''Wall Street'', JStr ''S&P 500''])
   \<and> generate_keywords env_scenario ''US financial markets'' 3 =
       Inr (JArr [JStr ''stocks'', JStr ''Fed'', JStr ''earnings''])"
proof -
  let ?topic = "''US financial markets''"
  let ?no_choice = "env_scenario\<lparr>chat_create := (\<lambda>topic n. Inr \<lparr>choices = []\<rparr>)\<rparr>"
  let ?no_content = "env_scenario\<lparr>chat_create := (\<lambda>topic n. Inr \<lparr>choices = [None]\<rparr>)\<rparr>"
  have prose: "chat_create env_prose ?topic 3 =
     Inr \<lparr>choices = [Some ''Here are 3 keywords: stocks, Fed, earnings'']\<rparr>"
    by (simp add: env_prose_def)
  have rejected: "json_loads env_prose ''Here are 3 keywords: stocks, Fed, earnings'' = Inl JSONDecodeError"
    by (simp add: env_prose_def example_defs)
  have no_choice: "chat_create ?no_choice ?topic 3 = Inr \<lparr>choices = []\<rparr>"
    by simp
  have no_content: "chat_create ?no_content ?topic 3 = Inr \<lparr>choices = [None]\<rparr>"
    by simp
  have array: \<open>chat_create env_scenario ?topic 3 =
     Inr \<lparr>choices = [Some ''["stocks", "Fed", "earnings"]'']\<rparr>\<close>
    by (simp add: env_scenario_def)
  have accepted: \<open>json_loads env_scenario ''["stocks", "Fed", "earnings"]'' =
      Inr (JArr [JStr ''stocks'', JStr ''Fed'', JStr ''earnings''])\<close>
    by (simp add: example_defs)
  from C3_fallback_on_unparsable_response [OF prose] rejected
  have 1: "generate_keywords env_prose ?topic 3 = Inr fallback_keywords"
    by simp
  from C3_fallback_on_unparsable_response [OF no_choice]
  have 2: "generate_keywords ?no_choice ?topic 3 = Inr fallback_keywords"
    by simp
  from C3_fallback_on_unparsable_response [OF no_content]
  have 3: "generate_keywords ?no_content ?topic 3 = Inr fallback_keywords"
    by simp
  from C3_fallback_on_unparsable_response [OF array] accepted
  have 4: "generate_keywords env_scenario ?topic 3 =
      Inr (JArr [JStr ''stocks'', JStr ''Fed'', JStr ''earnings''])"
    by simp
  from C3_fallback_on_unparsable_response [OF prose]
  have 5: "fallback_keywords = JArr [JStr ''US stock market'', JStr ''Wall Street'', JStr ''S&P 500'']"
    by blast
  from prose rejected 1 2 3 4 show ?thesis
    unfolding 5 by blast
qed

text \<open>
  C3 as stated fails for a JSON value that is not an array: the content \<open>42\<close> parses
  to the number 42, and \<open>generate_keywords\<close> returns the number, not the fallback list.
\<close>

theorem C3_counterexample:
  "chat_create env_number ''US financial markets'' 3 = Inr \<lparr>choices = [Some ''42'']\<rparr>
   \<and> json_loads env_number ''42'' = Inr (JInt 42)
   \<and> generate_keywords env_number ''US financial markets'' 3 = Inr (JInt 42)
   \<and> generate_keywords env_number ''US financial markets'' 3 \<noteq> Inr fallback_keywords"
  by (simp add: generate_keywords_def parse_first_choice_def fallback_keywords_def
        env_number_def example_defs)

subsection \<open>search_authors\<close>

text \<open>
  C5 as amended. After any number of rounds the dict has one entry per identifier; each
  identifier maps to the candidate stored last, in processing order, among the candidates
  that the rounds stored; the identifiers stand in the order in which they were first
  stored, and further rounds only append to that order. The round for a keyword stores
  the users of its response up to the first one without public metrics: all of them when
  every user has public metrics.
\<close>

theorem C5_collector_last_stored_wins:
  "distinct (map fst (search_loop w days per_kw kws []))
   \<and> map_of (search_loop w days per_kw kws []) =
       map_of (rev (concat (map (inserted w days per_kw) kws)))
   \<and> map fst (search_loop w days per_kw kws []) =
       first_seen (map fst (concat (map (inserted w days per_kw) kws)))
   \<and> search_loop w days per_kw kws [] =
       search_loop w days per_kw (drop n kws) (search_loop w days per_kw (take n kws) [])
   \<and> prefix (map fst (search_loop w days per_kw (take n kws) []))
        (map fst (search_loop w days per_kw kws []))
   \<and> ((\<forall>u \<in> set (listed w days per_kw kw). public_metrics u \<noteq> None) \<longrightarrow>
        inserted w days per_kw kw = map candidate_of (listed w days per_kw kw))"
proof -
  have "(\<forall>u \<in> set (listed w days per_kw kw). public_metrics u \<noteq> None) \<longrightarrow>
        inserted w days per_kw kw = map candidate_of (listed w days per_kw kw)"
    by (simp add: inserted_def takeWhile_eq_all_conv [THEN iffD2])
  moreover
  have "search_loop w days per_kw kws [] =
          search_loop w days per_kw (drop n kws) (search_loop w days per_kw (take n kws) [])"
    using search_loop_append [of w days per_kw "take n kws" "drop n kws" "[]"] by simp
  moreover from this
  have "prefix (map fst (search_loop w days per_kw (take n kws) []))
          (map fst (search_loop w days per_kw kws []))"
    by (simp add: search_loop_store_all [of w days per_kw "drop n kws"] store_all_keys)
  moreover have "distinct (map fst (search_loop w days per_kw kws []))"
    by (simp add: search_loop_store_all store_all_distinct)
  moreover have "map_of (search_loop w days per_kw kws []) =
       map_of (rev (concat (map (inserted w days per_kw) kws)))"
    by (simp only: search_loop_store_all store_all_map_of map_of.simps empty_map_add)
  moreover have "map fst (search_loop w days per_kw kws []) =
       first_seen (map fst (concat (map (inserted w days per_kw) kws)))"
    by (simp add: search_loop_store_all store_all_keys)
  ultimately show ?thesis by blast
qed

theorem C5_collector_last_stored_wins_witness:
  "listed env_scenario 7 10 (JStr ''Fed'') = [mk_user ''2'' ''B'' 3000, mk_user ''1'' ''A'' 8000]
   \<and> public_metrics (mk_user ''2'' ''B'' 3000) = Some [''followers_count'' \<mapsto> 3000]
   \<and> public_metrics (mk_user ''1'' ''A'' 8000) = Some [''followers_count'' \<mapsto> 8000]
   \<and> inserted env_scenario 7 10 (JStr ''Fed'') =
       [(''2'', \<lparr>info_username = ''B'', info_followers = 3000\<rparr>),
        (''1'', \<lparr>info_username = ''A'', info_followers = 8000\<rparr>)]
   \<and> map fst (search_loop env_scenario 7 10 [JStr ''stocks'', JStr ''Fed''] []) = [''1'', ''2'']
   \<and> map_of (search_loop env_scenario 7 10 [JStr ''stocks'', JStr ''Fed''] []) ''1'' =
       Some \<lparr>info_username = ''A'', info_followers = 8000\<rparr>"
proof -
  have l: "listed env_scenario 7 10 (JStr ''stocks'') = [mk_user ''1'' ''A'' 8000]"
    "listed env_scenario 7 10 (JStr ''Fed'') = [mk_user ''2'' ''B'' 3000, mk_user ''1'' ''A'' 8000]"
    by (simp_all add: listed_def env_scenario_def env_offline_def found_def)
  have c: "candidate_of (mk_user uid name k) = (uid, \<lparr>info_username = name, info_followers = k\<rparr>)"
    for uid name k
    by (simp add: candidate_of_def mk_user_def)
  have m: "public_metrics (mk_user uid name k) \<noteq> None" for uid name k
    by (simp add: mk_user_def)
  have i: "inserted env_scenario 7 10 (JStr ''stocks'') =
             [(''1'', \<lparr>info_username = ''A'', info_followers = 8000\<rparr>)]"
    by (simp add: inserted_def l c m)
  note claim = C5_collector_last_stored_wins
      [of env_scenario 7 10 "[JStr ''stocks'', JStr ''Fed'']" 1 "JStr ''Fed''"]
  have h: "\<forall>u \<in> set (listed env_scenario 7 10 (JStr ''Fed'')). public_metrics u \<noteq> None"
    by (simp only: l list.set ball_simps m simp_thms)
  with claim have "inserted env_scenario 7 10 (JStr ''Fed'') =
      map candidate_of (listed env_scenario 7 10 (JStr ''Fed''))"
    by blast
  then have j: "inserted env_scenario 7 10 (JStr ''Fed'') =
       [(''2'', \<lparr>info_username = ''B'', info_followers = 3000\<rparr>),
        (''1'', \<lparr>info_username = ''A'', info_followers = 8000\<rparr>)]"
    by (simp add: l c)
  from claim have "map fst (search_loop env_scenario 7 10 [JStr ''stocks'', JStr ''Fed''] []) =
      first_seen (map fst (concat (map (inserted env_scenario 7 10) [JStr ''stocks'', JStr ''Fed''])))"
    by blast
  then have k: "map fst (search_loop env_scenario 7 10 [JStr ''stocks'', JStr ''Fed''] []) = [''1'', ''2'']"
    by (simp add: i j)
  from claim have "map_of (search_loop env_scenario 7 10 [JStr ''stocks'', JStr ''Fed''] []) =
      map_of (rev (concat (map (inserted env_scenario 7 10) [JStr ''stocks'', JStr ''Fed''])))"
    by blast
  then have v: "map_of (search_loop env_scenario 7 10 [JStr ''stocks'', JStr ''Fed''] []) ''1'' =
       Some \<lparr>info_username = ''A'', info_followers = 8000\<rparr>"
    by (simp add: i j)
  have "public_metrics (mk_user uid name k) = Some [''followers_count'' \<mapsto> k]" for uid name k
    by (simp add: mk_user_def)
  with l(2) j k v show ?thesis by blast
qed

text \<open>
  C5 as stated fails. The search for the second keyword returns author 1 with handle A2
  and 9000 followers, after a user without public metrics; the dict still holds handle A
  and 8000 followers from the first keyword.
\<close>

theorem C5_counterexample:
  "search_recent_tweets env_missing_metrics (JStr ''Fed'') (min 10 100) 7 =
     Inr \<lparr>resp_includes =
            [(''users'',
              [\<lparr>user_id = ''2'', username = ''B'', public_metrics = None\<rparr>,
               \<lparr>user_id = ''1'', username = ''A2'',
                public_metrics = Some [''followers_count'' \<mapsto> 9000]\<rparr>])]\<rparr>
   \<and> search_authors env_missing_metrics (JArr [JStr ''stocks'', JStr ''Fed'']) 7 10 =
       Inr [(''1'', \<lparr>info_username = ''A'', info_followers = 8000\<rparr>)]"
  by (simp add: search_authors_def search_keyword_def env_missing_metrics_def example_defs)

text \<open>
  C6. For every sequence of keywords \<open>search_authors\<close> returns a dict, and it is the
  dict that the keywords whose search did not raise produce on their own: a keyword whose
  search raises leaves the dict as it was, and the loop goes on.
\<close>

theorem C6_failed_searches_skipped:
  "(\<exists>a. search_authors w (JArr kws) days per_kw = Inr a)
   \<and> search_authors w (JArr kws) days per_kw =
       search_authors w
         (JArr (filter (\<lambda>kw. \<not> isl (search_recent_tweets w kw (min per_kw 100) days)) kws))
         days per_kw
   \<and> (\<forall>e. search_recent_tweets w kw (min per_kw 100) days = Inl e \<longrightarrow>
         search_keyword w days per_kw kw a = a
         \<and> search_loop w days per_kw (kw # rest) a = search_loop w days per_kw rest a)"
  using search_loop_skip_failed [of w days per_kw kws "[]"]
  by (auto simp: search_authors_def search_keyword_def)

theorem C6_failed_searches_skipped_witness:
  "search_recent_tweets env_scenario (JStr ''earnings'') (min 10 100) 7 = Inl APIError
   \<and> search_authors env_scenario (JArr [JStr ''stocks'', JStr ''earnings'', JStr ''Fed'']) 7 10 =
       search_authors env_scenario (JArr [JStr ''stocks'', JStr ''Fed'']) 7 10
   \<and> search_authors env_scenario (JArr [JStr ''stocks'', JStr ''Fed'']) 7 10 =
       Inr [(''1'', \<lparr>info_username = ''A'', info_followers = 8000\<rparr>),
            (''2'', \<lparr>info_username = ''B'', info_followers = 3000\<rparr>)]
   \<and> search_keyword env_scenario 7 10 (JStr ''earnings'') [] = []"
proof -
  have s: "search_recent_tweets env_scenario (JStr ''earnings'') (min 10 100) 7 = Inl APIError"
          "search_recent_tweets env_scenario (JStr ''stocks'') (min 10 100) 7 = found [mk_user ''1'' ''A'' 8000]"
          "search_recent_tweets env_scenario (JStr ''Fed'') (min 10 100) 7 =
             found [mk_user ''2'' ''B'' 3000, mk_user ''1'' ''A'' 8000]"
    by (simp_all add: env_scenario_def env_offline_def)
  have r: "search_authors env_scenario (JArr [JStr ''stocks'', JStr ''Fed'']) 7 10 =
       Inr [(''1'', \<lparr>info_username = ''A'', info_followers = 8000\<rparr>),
            (''2'', \<lparr>info_username = ''B'', info_followers = 3000\<rparr>)]"
    by (simp add: search_authors_def search_keyword_def example_defs)
  show ?thesis
    using C6_failed_searches_skipped
      [of env_scenario "[JStr ''stocks'', JStr ''earnings'', JStr ''Fed'']" 7 10
          "JStr ''earnings''" "[]" "[]"] s r
    by (simp add: found_def)
qed

text \<open>
  C10 as amended. Let a user object with public metrics but without
  \<open>followers_count\<close> stand in the response for one of the keywords, after users that
  all have public metrics, and let no candidate stored later (from the rest of this
  response or in a later round) carry its identifier. Then \<open>search_authors\<close> returns
  a dict that holds the identifier with the user's handle and 0 followers, and
  \<open>run_pipeline\<close> returns what its loop returns on the dict without this candidate:
  the candidate adds no entry, in every environment and so for every number of recent
  posts.
\<close>

theorem C10_missing_followers_count_end_to_end:
  assumes iterable: "py_iter kws = Inr (ks1 @ kw # ks2)"
    and response: "listed w 7 10 kw = us1 @ u # us2"
    and reached: "\<forall>v \<in> set us1. public_metrics v \<noteq> None"
    and metrics: "public_metrics u = Some pm" "pm ''followers_count'' = None"
    and not_again: "user_id u \<notin> user_id ` set (takeWhile (\<lambda>v. public_metrics v \<noteq> None) us2)"
    and not_later: "\<forall>k \<in> set ks2. user_id u \<notin> fst ` set (inserted w 7 10 k)"
  shows "\<exists>authors.
           search_authors w kws 7 10 = Inr authors
           \<and> map_of authors (user_id u) = Some \<lparr>info_username = username u, info_followers = 0\<rparr>
           \<and> (generate_keywords w topic 3 = Inr kws \<longrightarrow>
                 fst (run_pipeline w topic files) =
                   pipeline_loop w (filter (\<lambda>p. fst p \<noteq> user_id u) authors) [])"
proof -
  let ?authors = "search_loop w 7 10 (ks1 @ kw # ks2) []"
  let ?zero = "\<lparr>info_username = username u, info_followers = 0\<rparr>"
  let ?pre = "concat (map (inserted w 7 10) ks1) @ map candidate_of us1"
  let ?post = "map candidate_of (takeWhile (\<lambda>v. public_metrics v \<noteq> None) us2)
                 @ concat (map (inserted w 7 10) ks2)"
  have u: "candidate_of u = (user_id u, ?zero)"
    using metrics by (simp add: candidate_of_def)
  have all_stored:
    "concat (map (inserted w 7 10) (ks1 @ kw # ks2)) = ?pre @ (user_id u, ?zero) # ?post"
    using inserted_split [OF response reached metrics(1)] u by simp
  have "user_id u \<notin> fst ` set ?post"
    using not_again not_later by (auto simp: candidate_of_def)
  then have "map_of (rev (?pre @ (user_id u, ?zero) # ?post)) (user_id u) = Some ?zero"
    by (rule map_of_rev_last)
  then have stored: "map_of ?authors (user_id u) = Some ?zero"
    by (simp only: search_loop_store_all store_all_map_of map_of.simps empty_map_add
          all_stored)
  have found: "search_authors w kws 7 10 = Inr ?authors"
    using iterable by (simp add: search_authors_def)
  have keys: "distinct (map fst ?authors)"
    by (simp add: search_loop_store_all store_all_distinct)
  have "fst (run_pipeline w topic files) =
          pipeline_loop w (filter (\<lambda>p. fst p \<noteq> user_id u) ?authors) []"
    if "generate_keywords w topic 3 = Inr kws"
  proof -
    have "fst (run_pipeline w topic files) = pipeline_loop w ?authors []"
      using that found by (simp add: run_pipeline_def pipeline_loop_acc)
    also have "\<dots> = pipeline_loop w (filter (\<lambda>p. fst p \<noteq> user_id u) ?authors) []"
      using filter_without_key [OF keys stored,
          of "\<lambda>(uid, info). 5000 \<le> info_followers info \<and> 6 \<le> posts w uid"]
      by (simp add: pipeline_loop_acc)
    finally show ?thesis .
  qed
  with found stored show ?thesis by blast
qed

theorem C10_missing_followers_count_end_to_end_witness:
  "listed env_no_count 7 10 (JStr ''stocks'') =
     [mk_user ''1'' ''A'' 8000, \<lparr>user_id = ''3'', username = ''C'', public_metrics = Some Map.empty\<rparr>]
   \<and> search_authors env_no_count (JArr [JStr ''stocks'', JStr ''Fed'', JStr ''earnings'']) 7 10 =
       Inr [(''1'', \<lparr>info_username = ''A'', info_followers = 8000\<rparr>),
            (''3'', \<lparr>info_username = ''C'', info_followers = 0\<rparr>),
            (''2'', \<lparr>info_username = ''B'', info_followers = 3000\<rparr>)]
   \<and> fst (run_pipeline env_no_count ''US financial markets'' Map.empty) =
       Inr [entry_of \<lparr>info_username = ''A'', info_followers = 8000\<rparr> 10]"
proof -
  let ?kws = "JArr [JStr ''stocks'', JStr ''Fed'', JStr ''earnings'']"
  let ?u = "\<lparr>user_id = ''3'', username = ''C'', public_metrics = Some Map.empty\<rparr>"
  have iterable: "py_iter ?kws = Inr ([] @ JStr ''stocks'' # [JStr ''Fed'', JStr ''earnings''])"
    by simp
  have response: "listed env_no_count 7 10 (JStr ''stocks'') = [mk_user ''1'' ''A'' 8000] @ ?u # []"
    by (simp add: no_count_evaluated)
  have reached: "\<forall>v \<in> set [mk_user ''1'' ''A'' 8000]. public_metrics v \<noteq> None"
    by (simp add: mk_user_def)
  have metrics: "public_metrics ?u = Some Map.empty" "(Map.empty :: string \<rightharpoonup> int) ''followers_count'' = None"
    by simp_all
  have not_again: "user_id ?u \<notin> user_id ` set (takeWhile (\<lambda>v. public_metrics v \<noteq> None) [])"
    by simp
  have not_later: "\<forall>k \<in> set [JStr ''Fed'', JStr ''earnings''].
      user_id ?u \<notin> fst ` set (inserted env_no_count 7 10 k)"
    by (simp add: no_count_evaluated)
  from C10_missing_followers_count_end_to_end
    [OF iterable response reached metrics not_again not_later,
      of "''US financial markets''" Map.empty]
  obtain authors where
    "search_authors env_no_count ?kws 7 10 = Inr authors"
    "fst (run_pipeline env_no_count ''US financial markets'' Map.empty) =
       pipeline_loop env_no_count (filter (\<lambda>p. fst p \<noteq> user_id ?u) authors) []"
    by (auto simp: no_count_evaluated(1))
  then have "fst (run_pipeline env_no_count ''US financial markets'' Map.empty) =
       Inr [entry_of \<lparr>info_username = ''A'', info_followers = 8000\<rparr> 10]"
    by (auto simp: no_count_evaluated pipeline_loop_acc)
  then show ?thesis
    by (simp add: no_count_evaluated)
qed

text \<open>
  C10 as stated fails. In the first environment the user object of author 3 in the
  response for stocks has no \<open>followers_count\<close>, the response for Fed brings author 3
  with 8000 followers, and author 3 is in the result. In the second environment the
  user object without \<open>followers_count\<close> comes after a user without public metrics
  and is not recorded at all.
\<close>

theorem C10_counterexample:
  "search_recent_tweets env_count_later (JStr ''stocks'') (min 10 100) 7 =
     Inr \<lparr>resp_includes =
            [(''users'', [\<lparr>user_id = ''3'', username = ''C'', public_metrics = Some Map.empty\<rparr>])]\<rparr>
   \<and> fst (run_pipeline env_count_later ''US financial markets'' Map.empty) =
       Inr [\<lparr>profile_url = ''https://x.com/C'', entry_username = ''C'', followers = 8000,
             tweets_last_2_weeks = 10, avg_posts_per_week = 5\<rparr>]
   \<and> search_recent_tweets env_no_count_unreached (JStr ''stocks'') (min 10 100) 7 =
       Inr \<lparr>resp_includes =
              [(''users'',
                [\<lparr>user_id = ''2'', username = ''B'', public_metrics = None\<rparr>,
                 \<lparr>user_id = ''3'', username = ''C'', public_metrics = Some Map.empty\<rparr>])]\<rparr>
   \<and> search_authors env_no_count_unreached
         (JArr [JStr ''stocks'', JStr ''Fed'', JStr ''earnings'']) 7 10 = Inr []"
proof -
  have "generate_keywords env_count_later ''US financial markets'' 3 =
      Inr (JArr [JStr ''stocks'', JStr ''Fed'', JStr ''earnings''])"
    by (simp add: generate_keywords_def parse_first_choice_def env_count_later_def example_defs)
  moreover have "search_authors env_count_later
      (JArr [JStr ''stocks'', JStr ''Fed'', JStr ''earnings'']) 7 10 =
      Inr [(''3'', \<lparr>info_username = ''C'', info_followers = 8000\<rparr>)]"
    by (simp add: search_authors_def search_keyword_def env_count_later_def example_defs)
  moreover have "posts env_count_later uid = 10" for uid
    by (simp add: posts_def count_tweets_def env_count_later_def example_defs)
  ultimately have "fst (run_pipeline env_count_later ''US financial markets'' Map.empty) =
      Inr [entry_of \<lparr>info_username = ''C'', info_followers = 8000\<rparr> 10]"
    by (simp add: run_pipeline_def pipeline_loop_acc)
  moreover have "entry_of \<lparr>info_username = ''C'', info_followers = 8000\<rparr> 10 =
      \<lparr>profile_url = ''https://x.com/C'', entry_username = ''C'', followers = 8000,
       tweets_last_2_weeks = 10, avg_posts_per_week = 5\<rparr>"
    using py_round2_half [of 10] by (simp add: entry_of_def)
  moreover have "search_authors env_no_count_unreached
         (JArr [JStr ''stocks'', JStr ''Fed'', JStr ''earnings'']) 7 10 = Inr []"
    by (simp add: search_authors_def search_keyword_def env_no_count_unreached_def example_defs)
  ultimately show ?thesis
    by (simp add: env_count_later_def env_no_count_unreached_def example_defs)
qed

subsection \<open>count_tweets\<close>

text \<open>
  C8. \<open>count_tweets\<close> never raises. It returns the number of posts of a response
  with data, 0 for a response without data or a response that counts as false, and 0
  when the timeline call raises.
\<close>

theorem C8_count_tweets_total:
  "(\<exists>t. count_tweets w uid days = Inr t)
   \<and> (\<forall>r ts. get_users_tweets w uid days 100 = Inr (Some r) \<and> tl_data r = Some ts
         \<longrightarrow> count_tweets w uid days = Inr (length ts))
   \<and> (\<forall>r. get_users_tweets w uid days 100 = Inr (Some r) \<and> tl_data r = None
         \<longrightarrow> count_tweets w uid days = Inr 0)
   \<and> (get_users_tweets w uid days 100 = Inr None \<longrightarrow> count_tweets w uid days = Inr 0)
   \<and> (\<forall>e. get_users_tweets w uid days 100 = Inl e \<longrightarrow> count_tweets w uid days = Inr 0)"
  using count_tweets_Inr [of w uid days] by (simp add: count_tweets_def)

theorem C8_count_tweets_total_witness:
  "count_tweets env_scenario ''1'' 7 = Inr 10
   \<and> count_tweets (env_scenario\<lparr>get_users_tweets := (\<lambda>uid days max_results.
        Inr (Some \<lparr>tl_data = None\<rparr>))\<rparr>) ''1'' 7 = Inr 0
   \<and> count_tweets (env_scenario\<lparr>get_users_tweets := (\<lambda>uid days max_results.
        Inr None)\<rparr>) ''1'' 7 = Inr 0
   \<and> count_tweets env_offline ''1'' 7 = Inr 0"
proof -
  have a: "get_users_tweets env_scenario ''1'' 7 100 = Inr (Some \<lparr>tl_data = Some (replicate 10 ''post'')\<rparr>)"
    by (simp add: example_defs)
  have b: "get_users_tweets env_offline ''1'' 7 100 = Inl APIError"
    by (simp add: example_defs)
  show ?thesis
    using C8_count_tweets_total [of env_scenario "''1''" 7] a
      C8_count_tweets_total [of "env_scenario\<lparr>get_users_tweets := (\<lambda>uid days max_results.
        Inr (Some \<lparr>tl_data = None\<rparr>))\<rparr>" "''1''" 7]
      C8_count_tweets_total [of "env_scenario\<lparr>get_users_tweets := (\<lambda>uid days max_results.
        Inr None)\<rparr>" "''1''" 7]
      C8_count_tweets_total [of env_offline "''1''" 7] b
    by simp
qed

subsection \<open>The filter in run_pipeline\<close>

text \<open>
  C4. The loop keeps exactly the candidates with at least 5000 followers and at least 6
  recent posts, in the order of the dict, and so does \<open>run_pipeline\<close>. A candidate with
  exactly 5000 followers and exactly 6 posts is kept; one with 4999 followers is dropped
  and one with 5 posts is dropped.
\<close>

theorem C4_thresholds_inclusive:
  "pipeline_loop w authors [] =
     Inr (map (\<lambda>(uid, info). entry_of info (posts w uid))
            (filter (\<lambda>(uid, info). 5000 \<le> info_followers info \<and> 6 \<le> posts w uid) authors))
   \<and> (generate_keywords w topic 3 = Inr kws \<and> search_authors w kws 7 10 = Inr authors \<longrightarrow>
        fst (run_pipeline w topic files) =
          Inr (map (\<lambda>(uid, info). entry_of info (posts w uid))
                 (filter (\<lambda>(uid, info). 5000 \<le> info_followers info \<and> 6 \<le> posts w uid) authors)))
   \<and> (info_followers info = 5000 \<and> posts w uid = 6 \<longrightarrow>
        pipeline_loop w [(uid, info)] [] = Inr [entry_of info 6])
   \<and> (info_followers info = 4999 \<longrightarrow> pipeline_loop w [(uid, info)] [] = Inr [])
   \<and> (posts w uid = 5 \<longrightarrow> pipeline_loop w [(uid, info)] [] = Inr [])"
  by (simp add: pipeline_loop_acc run_pipeline_def)

theorem C4_thresholds_inclusive_witness:
  "fst (run_pipeline env_boundary ''US financial markets'' Map.empty) =
     Inr [entry_of \<lparr>info_username = ''A'', info_followers = 8000\<rparr> 6]
   \<and> pipeline_loop env_boundary [(''1'', \<lparr>info_username = ''A'', info_followers = 5000\<rparr>)] [] =
       Inr [entry_of \<lparr>info_username = ''A'', info_followers = 5000\<rparr> 6]
   \<and> pipeline_loop env_boundary [(''1'', \<lparr>info_username = ''A'', info_followers = 4999\<rparr>)] [] =
       Inr []
   \<and> pipeline_loop env_boundary [(''2'', \<lparr>info_username = ''B'', info_followers = 5000\<rparr>)] [] =
       Inr []"
  using
    C4_thresholds_inclusive [of env_boundary
      "[(''1'', \<lparr>info_username = ''A'', info_followers = 8000\<rparr>),
        (''2'', \<lparr>info_username = ''B'', info_followers = 3000\<rparr>)]"
      "''US financial markets''" "JArr [JStr ''stocks'', JStr ''Fed'', JStr ''earnings'']"
      Map.empty "\<lparr>info_username = ''A'', info_followers = 5000\<rparr>" "''1''"]
    C4_thresholds_inclusive [of env_boundary "[]" "''US financial markets''" JNull
      Map.empty "\<lparr>info_username = ''A'', info_followers = 4999\<rparr>" "''1''"]
    C4_thresholds_inclusive [of env_boundary "[]" "''US financial markets''" JNull
      Map.empty "\<lparr>info_username = ''B'', info_followers = 5000\<rparr>" "''2''"]
  by (simp add: scenario_keywords scenario_authors example_posts)

text \<open>
  C7. In every entry that \<open>run_pipeline\<close> returns, \<open>avg_posts_per_week\<close> is the
  post count of the entry divided by 2 and rounded to 2 decimals, which is the exact
  half; for 7 posts it is 3.5.
\<close>

theorem C7_avg_posts_per_week:
  assumes "fst (run_pipeline w topic files) = Inr rs" and "e \<in> set rs"
  shows "avg_posts_per_week e = py_round2 (of_nat (tweets_last_2_weeks e) / 2)
         \<and> avg_posts_per_week e = of_nat (tweets_last_2_weeks e) / 2
         \<and> (tweets_last_2_weeks e = 7 \<longrightarrow> avg_posts_per_week e = 3.5)"
proof -
  from assms(1) obtain authors where "pipeline_loop w authors [] = Inr rs"
    by (rule run_pipeline_results)
  with assms(2) obtain info t where e: "e = entry_of info t"
    by (auto simp: pipeline_loop_acc)
  have "avg_posts_per_week e = py_round2 (of_nat (tweets_last_2_weeks e) / 2)"
    by (simp add: e entry_of_def)
  moreover have "py_round2 (of_nat (tweets_last_2_weeks e) / 2) = of_nat (tweets_last_2_weeks e) / 2"
    by (rule py_round2_half)
  ultimately show ?thesis by simp
qed

theorem C7_avg_posts_per_week_witness:
  "fst (run_pipeline env_seven ''US financial markets'' Map.empty) =
     Inr [entry_of \<lparr>info_username = ''A'', info_followers = 8000\<rparr> 7]
   \<and> tweets_last_2_weeks (entry_of \<lparr>info_username = ''A'', info_followers = 8000\<rparr> 7) = 7
   \<and> avg_posts_per_week (entry_of \<lparr>info_username = ''A'', info_followers = 8000\<rparr> 7) = 3.5"
proof -
  have t: "tweets_last_2_weeks (entry_of \<lparr>info_username = ''A'', info_followers = 8000\<rparr> 7) = 7"
    by (simp add: entry_of_def)
  from C7_avg_posts_per_week [OF seven_run, of "entry_of \<lparr>info_username = ''A'', info_followers = 8000\<rparr> 7"] t
  show ?thesis using seven_run by simp
qed

subsection \<open>Failures of the remote services in run_pipeline\<close>

text \<open>
  C2 fails on the code. When the text-generation call raises, \<open>generate_keywords\<close>
  raises, \<open>run_pipeline\<close> raises with it, and no file is written, although the search
  and the timeline work.
\<close>

theorem C2_text_generation_error_is_fatal:
  "chat_create env_no_keywords ''US financial markets'' 3 = Inl APIError
   \<and> generate_keywords env_no_keywords ''US financial markets'' 3 = Inl APIError
   \<and> run_pipeline env_no_keywords ''US financial markets'' Map.empty = (Inl APIError, Map.empty)"
  by (simp add: run_pipeline_def generate_keywords_def env_no_keywords_def)

subsection \<open>run_crewai\<close>

text \<open>
  C1. For every environment and topic, \<open>search_and_filter\<close> returns (or raises) exactly
  what \<open>run_pipeline\<close> returns (or raises): the same sequence of result entries,
  whatever the argument \<open>ctx\<close> and the files present before.
\<close>

theorem C1_search_and_filter_eq_run_pipeline:
  "search_and_filter w topic ctx = fst (run_pipeline w topic files)"
  by (simp add: search_and_filter_def run_pipeline_def filter_loop_pipeline_loop
        split: sum.splits)

text \<open>
  C9 as amended. Without the orchestration library \<open>run_crewai\<close> is \<open>run_pipeline\<close>:
  same outcome, same files, so the only file written is \<open>results.json\<close>. With the
  library, when the constructors return and the kickoff or the reading of its result
  raises, \<open>run_crewai\<close> runs \<open>run_pipeline\<close>; when that returns a list, the list is
  the result, \<open>run_pipeline\<close> has written it to \<open>results.json\<close> and
  \<open>run_crewai\<close> writes it to \<open>results_crewai.json\<close> as well.
\<close>

theorem C9_fallback_to_run_pipeline:
  "(\<not> crewai_available w \<longrightarrow>
      fst (run_crewai w topic files) = map_sum id Entries (fst (run_pipeline w topic files))
      \<and> snd (run_crewai w topic files) = snd (run_pipeline w topic files))
   \<and> (\<forall>e. kickoff w topic (search_and_filter w topic) = Inl e \<longrightarrow> crew_attempt w topic = Inl e)
   \<and> (\<forall>e rs files'.
        crewai_available w \<and> agent_new w = None \<and> task_new w topic = None \<and> crew_new w = None
        \<and> crew_attempt w topic = Inl e \<and> run_pipeline w topic files = (Inr rs, files') \<longrightarrow>
          run_crewai w topic files =
            (Inr (Entries rs), files'(''results_crewai.json'' \<mapsto> Doc topic (Entries rs)))
          \<and> files' = files(''results.json'' \<mapsto> Doc topic (Entries rs)))"
proof -
  have unavailable: "fst (run_crewai w topic files) = map_sum id Entries (fst (run_pipeline w topic files))
      \<and> snd (run_crewai w topic files) = snd (run_pipeline w topic files)"
    if "\<not> crewai_available w"
  proof (cases "run_pipeline w topic files")
    case (Pair r files')
    with that show ?thesis
      by (cases r) (simp_all add: run_crewai_def)
  qed
  have raised: "crew_attempt w topic = Inl e"
    if "kickoff w topic (search_and_filter w topic) = Inl e" for e
    using that by (simp add: crew_attempt_def)
  have fallback: "run_crewai w topic files =
            (Inr (Entries rs), files'(''results_crewai.json'' \<mapsto> Doc topic (Entries rs)))
          \<and> files' = files(''results.json'' \<mapsto> Doc topic (Entries rs))"
    if "crewai_available w" "agent_new w = None" "task_new w topic = None" "crew_new w = None"
      "crew_attempt w topic = Inl e" "run_pipeline w topic files = (Inr rs, files')"
    for e rs files'
    using that run_pipeline_files [of w topic files rs files']
    by (simp add: run_crewai_def write_crewai_def)
  show ?thesis
    using unavailable raised fallback by blast
qed

theorem C9_fallback_to_run_pipeline_witness:
  "\<not> crewai_available env_scenario
   \<and> run_crewai env_scenario ''US financial markets'' Map.empty =
       (Inr (Entries [entry_of \<lparr>info_username = ''A'', info_followers = 8000\<rparr> 10]),
        [''results.json'' \<mapsto> Doc ''US financial markets''
           (Entries [entry_of \<lparr>info_username = ''A'', info_followers = 8000\<rparr> 10])])
   \<and> crewai_available env_crew_fails
   \<and> kickoff env_crew_fails ''US financial markets''
        (search_and_filter env_crew_fails ''US financial markets'') = Inl CrewError
   \<and> run_crewai env_crew_fails ''US financial markets'' Map.empty =
       (Inr (Entries [entry_of \<lparr>info_username = ''A'', info_followers = 8000\<rparr> 10]),
        [''results.json'' \<mapsto> Doc ''US financial markets''
           (Entries [entry_of \<lparr>info_username = ''A'', info_followers = 8000\<rparr> 10]),
         ''results_crewai.json'' \<mapsto> Doc ''US financial markets''
           (Entries [entry_of \<lparr>info_username = ''A'', info_followers = 8000\<rparr> 10])])"
proof -
  let ?topic = "''US financial markets''"
  let ?rs = "[entry_of \<lparr>info_username = ''A'', info_followers = 8000\<rparr> 10]"
  let ?files = "[''results.json'' \<mapsto> Doc ?topic (Entries ?rs)] :: string fs"
  have a: "\<not> crewai_available env_scenario"
    by (simp add: example_defs)
  have b: "crewai_available env_crew_fails" "agent_new env_crew_fails = None"
    "task_new env_crew_fails ?topic = None" "crew_new env_crew_fails = None"
    by (simp_all add: env_crew_fails_def example_defs)
  have k: "kickoff env_crew_fails ?topic (search_and_filter env_crew_fails ?topic) = Inl CrewError"
    by (simp add: env_crew_fails_def example_defs)
  note direct = C9_fallback_to_run_pipeline [of env_scenario ?topic Map.empty, THEN conjunct1,
      rule_format, OF a]
  note spec = C9_fallback_to_run_pipeline [of env_crew_fails ?topic Map.empty, THEN conjunct2]
  from spec k have c: "crew_attempt env_crew_fails ?topic = Inl CrewError"
    by blast
  have "run_crewai env_scenario ?topic Map.empty = (Inr (Entries ?rs), ?files)"
    using direct by (simp add: scenario_run(1) prod_eq_iff)
  moreover have "run_crewai env_crew_fails ?topic Map.empty =
      (Inr (Entries ?rs), ?files(''results_crewai.json'' \<mapsto> Doc ?topic (Entries ?rs)))"
    using spec [THEN conjunct2, rule_format, of CrewError ?rs ?files] b c scenario_run(2)
    by blast
  ultimately show ?thesis
    using a b(1) k by simp
qed

text \<open>
  C9 as stated fails. Without the library the result goes to \<open>results.json\<close> and
  \<open>results_crewai.json\<close> is not written. With the library, a constructor that raises
  ends \<open>run_crewai\<close> with its exception: the pipeline does not run and nothing is
  written.
\<close>

theorem C9_counterexample:
  "\<not> crewai_available env_scenario
   \<and> snd (run_crewai env_scenario ''US financial markets'' Map.empty) ''results_crewai.json'' = None
   \<and> snd (run_crewai env_scenario ''US financial markets'' Map.empty) ''results.json'' =
       Some (Doc ''US financial markets''
         (Entries [entry_of \<lparr>info_username = ''A'', info_followers = 8000\<rparr> 10]))
   \<and> crewai_available env_agent_fails
   \<and> agent_new env_agent_fails = Some CrewError
   \<and> run_crewai env_agent_fails ''US financial markets'' Map.empty = (Inl CrewError, Map.empty)"
proof -
  have a: "\<not> crewai_available env_scenario"
    by (simp add: example_defs)
  have b: "crewai_available env_agent_fails" "agent_new env_agent_fails = Some CrewError"
    by (simp_all add: env_agent_fails_def example_defs)
  have "run_crewai env_scenario ''US financial markets'' Map.empty =
       (Inr (Entries [entry_of \<lparr>info_username = ''A'', info_followers = 8000\<rparr> 10]),
        [''results.json'' \<mapsto> Doc ''US financial markets''
           (Entries [entry_of \<lparr>info_username = ''A'', info_followers = 8000\<rparr> 10])])"
    using a by (simp add: run_crewai_def scenario_run)
  moreover have "run_crewai env_agent_fails ''US financial markets'' Map.empty = (Inl CrewError, Map.empty)"
    using b by (simp add: run_crewai_def)
  ultimately show ?thesis using a b by simp
qed

end
